theory Spec2Isabelle
  imports
    Main
    "HOL-Library.Word"
    "HOL-Library.Multiset"
    "HOL-Library.Char_ord"
    "HOL-Library.List_Lexorder"
begin

unbundle bit_operations_syntax

section \<open>Values of the configuration editor\<close>

text \<open>
  The editor (\<^verbatim>\<open>tools/config_editor.py\<close>) works on the values that \<^verbatim>\<open>json.load\<close>
  returns: \<^verbatim>\<open>None\<close>, \<^verbatim>\<open>bool\<close>, \<^verbatim>\<open>int\<close>, \<^verbatim>\<open>float\<close>, \<^verbatim>\<open>str\<close>, \<^verbatim>\<open>list\<close>
  and \<^verbatim>\<open>dict\<close> with \<^verbatim>\<open>str\<close> keys.

  \<^item> A \<^verbatim>\<open>str\<close> is represented by its UTF-8 bytes, one \<open>char\<close> per byte. Comparing two
    strings byte by byte is comparing them code point by code point, and every character
    the encoder escapes is a single byte, so nothing the program does tells the two apart.
    \<^verbatim>\<open>s.encode('utf-8')\<close> is then the byte list itself. (A \<^verbatim>\<open>str\<close> holding a lone
    surrogate has no UTF-8 form and is not a value of this model.)
  \<^item> An \<^verbatim>\<open>int\<close> is unbounded: \<open>int\<close>.
  \<^item> A \<^verbatim>\<open>float\<close> is its IEEE-754 binary64 bit pattern. The only library function on
    floats that is not computed here is \<^verbatim>\<open>float.__repr__\<close>; it is a parameter.
  \<^item> A \<^verbatim>\<open>dict\<close> is an association list in insertion order. A Python dictionary holds
    each key once: \<open>wf_json\<close> below states that.
\<close>

type_synonym byte = "8 word"

datatype json =
    JNull
  | JBool bool
  | JInt int
  | JFloat "64 word"
  | JStr string
  | JList "json list"
  | JObj "(string \<times> json) list"

type_synonym dict = "(string \<times> json) list"

text \<open>The library functions that are taken as they are: \<^verbatim>\<open>float.__repr__\<close> and
  \<^verbatim>\<open>int(s)\<close> on a string (\<open>None\<close> where it raises \<^verbatim>\<open>ValueError\<close>).\<close>

record py_builtins =
  float_repr :: "64 word \<Rightarrow> string"
  int_of_str :: "string \<Rightarrow> int option"

fun wf_json :: "json \<Rightarrow> bool" where
  "wf_json (JList xs) = (\<forall>x \<in> set xs. wf_json x)"
| "wf_json (JObj kvs) = (distinct (map fst kvs) \<and> (\<forall>(k, v) \<in> set kvs. wf_json v))"
| "wf_json _ = True"

subsection \<open>Dictionary operations\<close>

text \<open>\<^verbatim>\<open>d.get(k)\<close>: the value, or \<^verbatim>\<open>None\<close>.\<close>

definition dict_get :: "dict \<Rightarrow> string \<Rightarrow> json" where
  "dict_get d k = (case map_of d k of None \<Rightarrow> JNull | Some v \<Rightarrow> v)"

text \<open>\<^verbatim>\<open>d.get(k, default)\<close>, and the value of \<^verbatim>\<open>d.pop(k, default)\<close>.\<close>

definition dict_get_default :: "dict \<Rightarrow> string \<Rightarrow> json \<Rightarrow> json" where
  "dict_get_default d k dflt = (case map_of d k of None \<Rightarrow> dflt | Some v \<Rightarrow> v)"

text \<open>\<^verbatim>\<open>d[k] = v\<close>: an existing key keeps its place, a new key goes last.\<close>

fun dict_set :: "string \<Rightarrow> json \<Rightarrow> dict \<Rightarrow> dict" where
  "dict_set k v [] = [(k, v)]"
| "dict_set k v ((k', v') # d) = (if k' = k then (k, v) # d else (k', v') # dict_set k v d)"

text \<open>The dictionary after \<^verbatim>\<open>d.pop(k, default)\<close>.\<close>

definition dict_pop :: "string \<Rightarrow> dict \<Rightarrow> dict" where
  "dict_pop k d = filter (\<lambda>(k', v). k' \<noteq> k) d"

subsection \<open>Truth value and \<^verbatim>\<open>int()\<close>\<close>

fun truthy :: "json \<Rightarrow> bool" where
  "truthy JNull = False"
| "truthy (JBool b) = b"
| "truthy (JInt i) = (i \<noteq> 0)"
| "truthy (JFloat w) = (take_bit 63 w \<noteq> 0)"
| "truthy (JStr s) = (s \<noteq> [])"
| "truthy (JList xs) = (xs \<noteq> [])"
| "truthy (JObj kvs) = (kvs \<noteq> [])"

text \<open>\<^verbatim>\<open>a or b\<close>.\<close>

definition py_or :: "json \<Rightarrow> json \<Rightarrow> json" where
  "py_or a b = (if truthy a then a else b)"

text \<open>\<^verbatim>\<open>int(x)\<close> of a float truncates towards zero and raises on NaN and the infinities.\<close>

definition float_exponent :: "64 word \<Rightarrow> nat" where
  "float_exponent w = unat (take_bit 11 (drop_bit 52 w))"

definition float_mantissa :: "64 word \<Rightarrow> nat" where
  "float_mantissa w = unat (take_bit 52 w)"

definition int_of_float :: "64 word \<Rightarrow> int option" where
  "int_of_float w =
     (let e = float_exponent w; m = float_mantissa w in
      if e = 2047 then None
      else if e = 0 then Some 0
      else
        let mag = (if 1075 \<le> e then (2 ^ 52 + m) * 2 ^ (e - 1075)
                   else (2 ^ 52 + m) div 2 ^ (1075 - e))
        in Some (if bit w 63 then - int mag else int mag))"

fun py_int :: "py_builtins \<Rightarrow> json \<Rightarrow> int option" where
  "py_int B (JInt i) = Some i"
| "py_int B (JBool b) = Some (if b then 1 else 0)"
| "py_int B (JFloat w) = int_of_float w"
| "py_int B (JStr s) = int_of_str B s"
| "py_int B _ = None"

section \<open>The canonical encoder\<close>

subsection \<open>Numbers in decimal and hexadecimal\<close>

definition digit_char :: "nat \<Rightarrow> char" where
  "digit_char n = ''0123456789abcdef'' ! n"

function digits_of_nat :: "nat \<Rightarrow> nat \<Rightarrow> string" where
  "digits_of_nat b n =
     (if b < 2 \<or> n < b then [digit_char n]
      else digits_of_nat b (n div b) @ [digit_char (n mod b)])"
  by pat_completeness auto
termination
  by (relation "measure snd") auto

declare digits_of_nat.simps [simp del]

text \<open>\<^verbatim>\<open>int.__repr__\<close>.\<close>

definition int_repr :: "int \<Rightarrow> string" where
  "int_repr i = (if i < 0 then CHR ''-'' # digits_of_nat 10 (nat (- i)) else digits_of_nat 10 (nat i))"

text \<open>\<^verbatim>\<open>format(n, '0Wx')\<close> for \<open>n \<ge> 0\<close>: lowercase hexadecimal, filled with zeros on the left
  up to width \<open>W\<close>, and longer than \<open>W\<close> when the number needs it.\<close>

definition format_0x :: "nat \<Rightarrow> nat \<Rightarrow> string" where
  "format_0x width n =
     (let ds = digits_of_nat 16 n in replicate (width - length ds) CHR ''0'' @ ds)"

subsection \<open>Strings\<close>

text \<open>
  \<^verbatim>\<open>encode_basestring\<close> of the \<^verbatim>\<open>json\<close> module, the string encoder when
  \<^verbatim>\<open>ensure_ascii=False\<close>: backslash, the double quote and the control characters below
  U+0020 are escaped (\<^verbatim>\<open>ESCAPE_DCT\<close>), every other character is copied.
\<close>

definition escape_char :: "char \<Rightarrow> string" where
  "escape_char c =
     (if c = CHR 0x5C then [CHR 0x5C, CHR 0x5C]
      else if c = CHR 0x22 then [CHR 0x5C, CHR 0x22]
      else if c = CHR 0x08 then [CHR 0x5C, CHR ''b'']
      else if c = CHR 0x0C then [CHR 0x5C, CHR ''f'']
      else if c = CHR 0x0A then [CHR 0x5C, CHR ''n'']
      else if c = CHR 0x0D then [CHR 0x5C, CHR ''r'']
      else if c = CHR 0x09 then [CHR 0x5C, CHR ''t'']
      else if (of_char c :: nat) < 0x20 then [CHR 0x5C, CHR ''u''] @ format_0x 4 (of_char c)
      else [c])"

definition encode_basestring :: "string \<Rightarrow> string" where
  "encode_basestring s = [CHR 0x22] @ concat (map escape_char s) @ [CHR 0x22]"

subsection \<open>Floats\<close>

text \<open>\<^verbatim>\<open>floatstr\<close> of \<^verbatim>\<open>json.encoder\<close>, with \<^verbatim>\<open>allow_nan\<close> at its default.\<close>

definition float_str :: "py_builtins \<Rightarrow> 64 word \<Rightarrow> string" where
  "float_str B w =
     (if float_exponent w = 2047 \<and> float_mantissa w \<noteq> 0 then ''NaN''
      else if w = 0x7FF0000000000000 then ''Infinity''
      else if w = 0xFFF0000000000000 then ''-Infinity''
      else float_repr B w)"

subsection \<open>\<^verbatim>\<open>json.dumps\<close>\<close>

text \<open>The chunks of a list or of a dictionary, with the item separator between them.\<close>

fun join_items :: "string \<Rightarrow> string list \<Rightarrow> string" where
  "join_items sep [] = []"
| "join_items sep [x] = x"
| "join_items sep (x # y # ys) = x @ sep @ join_items sep (y # ys)"

text \<open>
  \<^verbatim>\<open>json.dumps(obj, separators=(item_separator, key_separator), ensure_ascii=False,
  sort_keys=sort_keys)\<close>. With \<^verbatim>\<open>sort_keys\<close> the encoder iterates over
  \<^verbatim>\<open>sorted(dct.items())\<close>; the keys of a dictionary differ, so the items are sorted by
  their keys.
\<close>

lemma size_dict_value: "(k, v) \<in> set dct \<Longrightarrow> size v < Suc (size_list (size_prod (\<lambda>x. 0) size) dct)"
  by (induction dct) auto

lemma size_list_member: "x \<in> set xs \<Longrightarrow> size x < Suc (size_list size xs)"
  by (induction xs) auto

function json_dumps :: "py_builtins \<Rightarrow> string \<times> string \<Rightarrow> bool \<Rightarrow> json \<Rightarrow> string" where
  "json_dumps B seps sort_keys JNull = ''null''"
| "json_dumps B seps sort_keys (JBool b) = (if b then ''true'' else ''false'')"
| "json_dumps B seps sort_keys (JInt i) = int_repr i"
| "json_dumps B seps sort_keys (JFloat w) = float_str B w"
| "json_dumps B seps sort_keys (JStr s) = encode_basestring s"
| "json_dumps B seps sort_keys (JList xs) =
     (if xs = [] then ''[]''
      else ''['' @ join_items (fst seps) (map (json_dumps B seps sort_keys) xs) @ '']'')"
| "json_dumps B seps sort_keys (JObj dct) =
     (if dct = [] then ''{}''
      else
        let items = (if sort_keys then sort_key fst dct else dct) in
        ''{'' @ join_items (fst seps)
                 (map (\<lambda>(key, value).
                         encode_basestring key @ snd seps @ json_dumps B seps sort_keys value)
                      items)
             @ ''}'')"
  by pat_completeness auto
termination
  by (relation "measure (\<lambda>(B, seps, sort_keys, obj). size obj)")
    (auto simp: size_list_member size_dict_value split: if_splits)

definition dump_compact_sorted :: "py_builtins \<Rightarrow> json \<Rightarrow> string" where
  "dump_compact_sorted B obj = json_dumps B ('','', '':'') True obj"

section \<open>Checksum\<close>

text \<open>
  \<^verbatim>\<open>binascii.crc32\<close> is zlib's \<^verbatim>\<open>crc32(crc, buf)\<close> with \<^verbatim>\<open>crc = 0\<close>: CRC-32 with the
  reflected polynomial \<^verbatim>\<open>0xEDB88320\<close>, the running value xor-ed with
  \<^verbatim>\<open>0xFFFFFFFF\<close> on the way in and on the way out.
\<close>

definition crc_shift :: "32 word \<Rightarrow> 32 word" where
  "crc_shift c = (if bit c 0 then drop_bit 1 c XOR 0xEDB88320 else drop_bit 1 c)"

definition crc_byte :: "byte \<Rightarrow> 32 word \<Rightarrow> 32 word" where
  "crc_byte b c =
     crc_shift (crc_shift (crc_shift (crc_shift
       (crc_shift (crc_shift (crc_shift (crc_shift (c XOR ucast b))))))))"

definition zlib_crc32 :: "32 word \<Rightarrow> byte list \<Rightarrow> 32 word" where
  "zlib_crc32 crc buf = fold crc_byte buf (crc XOR 0xFFFFFFFF) XOR 0xFFFFFFFF"

definition binascii_crc32 :: "byte list \<Rightarrow> nat" where
  "binascii_crc32 data = unat (zlib_crc32 0 data)"

definition encode_utf8 :: "string \<Rightarrow> byte list" where
  "encode_utf8 s = map of_char s"

definition calculate_crc32 :: "string \<Rightarrow> string" where
  "calculate_crc32 data =
     (let crc = binascii_crc32 (encode_utf8 data) AND 0xFFFFFFFF in format_0x 8 crc)"

section \<open>Signature\<close>

text \<open>
  \<^verbatim>\<open>hmac.new(key, msg, hashlib.sha256).hexdigest()\<close>: SHA-256 (FIPS 180-4) and HMAC
  (RFC 2104) over bytes.
\<close>

definition sha256_k :: "32 word list" where
  "sha256_k =
     [
      0x428A2F98, 0x71374491, 0xB5C0FBCF, 0xE9B5DBA5, 0x3956C25B,
      0x59F111F1, 0x923F82A4, 0xAB1C5ED5, 0xD807AA98, 0x12835B01,
      0x243185BE, 0x550C7DC3, 0x72BE5D74, 0x80DEB1FE, 0x9BDC06A7,
      0xC19BF174, 0xE49B69C1, 0xEFBE4786, 0x0FC19DC6, 0x240CA1CC,
      0x2DE92C6F, 0x4A7484AA, 0x5CB0A9DC, 0x76F988DA, 0x983E5152,
      0xA831C66D, 0xB00327C8, 0xBF597FC7, 0xC6E00BF3, 0xD5A79147,
      0x06CA6351, 0x14292967, 0x27B70A85, 0x2E1B2138, 0x4D2C6DFC,
      0x53380D13, 0x650A7354, 0x766A0ABB, 0x81C2C92E, 0x92722C85,
      0xA2BFE8A1, 0xA81A664B, 0xC24B8B70, 0xC76C51A3, 0xD192E819,
      0xD6990624, 0xF40E3585, 0x106AA070, 0x19A4C116, 0x1E376C08,
      0x2748774C, 0x34B0BCB5, 0x391C0CB3, 0x4ED8AA4A, 0x5B9CCA4F,
      0x682E6FF3, 0x748F82EE, 0x78A5636F, 0x84C87814, 0x8CC70208,
      0x90BEFFFA, 0xA4506CEB, 0xBEF9A3F7, 0xC67178F2
     ]"

type_synonym sha256_state =
  "32 word \<times> 32 word \<times> 32 word \<times> 32 word \<times> 32 word \<times> 32 word \<times> 32 word \<times> 32 word"

definition sha256_init :: sha256_state where
  "sha256_init =
     (
      0x6A09E667, 0xBB67AE85, 0x3C6EF372, 0xA54FF53A,
      0x510E527F, 0x9B05688C, 0x1F83D9AB, 0x5BE0CD19
     )"

definition rotr :: "nat \<Rightarrow> 32 word \<Rightarrow> 32 word" where
  "rotr n x = drop_bit n x OR push_bit (32 - n) x"

definition small_sigma0 :: "32 word \<Rightarrow> 32 word" where
  "small_sigma0 x = rotr 7 x XOR rotr 18 x XOR drop_bit 3 x"

definition small_sigma1 :: "32 word \<Rightarrow> 32 word" where
  "small_sigma1 x = rotr 17 x XOR rotr 19 x XOR drop_bit 10 x"

definition big_sigma0 :: "32 word \<Rightarrow> 32 word" where
  "big_sigma0 x = rotr 2 x XOR rotr 13 x XOR rotr 22 x"

definition big_sigma1 :: "32 word \<Rightarrow> 32 word" where
  "big_sigma1 x = rotr 6 x XOR rotr 11 x XOR rotr 25 x"

definition ch :: "32 word \<Rightarrow> 32 word \<Rightarrow> 32 word \<Rightarrow> 32 word" where
  "ch x y z = (x AND y) XOR (NOT x AND z)"

definition maj :: "32 word \<Rightarrow> 32 word \<Rightarrow> 32 word \<Rightarrow> 32 word" where
  "maj x y z = (x AND y) XOR (x AND z) XOR (y AND z)"

text \<open>Four bytes, most significant first, and back.\<close>

definition be32 :: "byte list \<Rightarrow> 32 word" where
  "be32 bs = foldl (\<lambda>w b. push_bit 8 w OR ucast b) 0 bs"

definition be32_bytes :: "32 word \<Rightarrow> byte list" where
  "be32_bytes w = [ucast (drop_bit 24 w), ucast (drop_bit 16 w), ucast (drop_bit 8 w), ucast w]"

text \<open>A list cut into pieces of \<open>n\<close> elements.\<close>

function chunks :: "nat \<Rightarrow> 'a list \<Rightarrow> 'a list list" where
  "chunks n xs = (if n = 0 \<or> xs = [] then [] else take n xs # chunks n (drop n xs))"
  by pat_completeness auto
termination
  by (relation "measure (\<lambda>(n, xs). length xs)") auto

declare chunks.simps [simp del]

text \<open>The message schedule: sixteen words of the block, extended to sixty-four.\<close>

fun extend_schedule :: "nat \<Rightarrow> 32 word list \<Rightarrow> 32 word list" where
  "extend_schedule 0 w = w"
| "extend_schedule (Suc n) w =
     (let i = length w in
      extend_schedule n
        (w @ [small_sigma1 (w ! (i - 2)) + w ! (i - 7) + small_sigma0 (w ! (i - 15)) + w ! (i - 16)]))"

definition schedule :: "byte list \<Rightarrow> 32 word list" where
  "schedule block = extend_schedule 48 (map be32 (chunks 4 block))"

fun sha256_round :: "32 word \<times> 32 word \<Rightarrow> sha256_state \<Rightarrow> sha256_state" where
  "sha256_round (k, w) (a, b, c, d, e, f, g, h) =
     (let t1 = h + big_sigma1 e + ch e f g + k + w;
          t2 = big_sigma0 a + maj a b c
      in (t1 + t2, a, b, c, d + t1, e, f, g))"

fun sha256_add :: "sha256_state \<Rightarrow> sha256_state \<Rightarrow> sha256_state" where
  "sha256_add (a, b, c, d, e, f, g, h) (a', b', c', d', e', f', g', h') =
     (a + a', b + b', c + c', d + d', e + e', f + f', g + g', h + h')"

definition sha256_compress :: "byte list \<Rightarrow> sha256_state \<Rightarrow> sha256_state" where
  "sha256_compress block st = sha256_add st (fold sha256_round (zip sha256_k (schedule block)) st)"

text \<open>Padding: a one bit, zero bits, and the length of the message in bits as 64 bits.\<close>

definition sha256_pad :: "byte list \<Rightarrow> byte list" where
  "sha256_pad msg =
     (let n = length msg;
          len_bits = (of_nat (8 * n) :: 64 word)
      in msg @ [0x80] @ replicate ((64 - (n + 9) mod 64) mod 64) 0
           @ map (\<lambda>i. ucast (drop_bit (8 * (7 - i)) len_bits)) [0..<8])"

fun sha256_digest :: "sha256_state \<Rightarrow> byte list" where
  "sha256_digest (a, b, c, d, e, f, g, h) =
     be32_bytes a @ be32_bytes b @ be32_bytes c @ be32_bytes d
       @ be32_bytes e @ be32_bytes f @ be32_bytes g @ be32_bytes h"

definition sha256 :: "byte list \<Rightarrow> byte list" where
  "sha256 msg = sha256_digest (fold sha256_compress (chunks 64 (sha256_pad msg)) sha256_init)"

definition hmac_sha256 :: "byte list \<Rightarrow> byte list \<Rightarrow> byte list" where
  "hmac_sha256 key msg =
     (let key = (if 64 < length key then sha256 key else key);
          key = key @ replicate (64 - length key) 0;
          inner = sha256 (map (\<lambda>b. b XOR 0x36) key @ msg)
      in sha256 (map (\<lambda>b. b XOR 0x5C) key @ inner))"

definition hexdigest :: "byte list \<Rightarrow> string" where
  "hexdigest bs = concat (map (\<lambda>b. format_0x 2 (unat b)) bs)"

definition calculate_hmac_sha256 :: "string \<Rightarrow> string \<Rightarrow> string" where
  "calculate_hmac_sha256 data secret =
     hexdigest (hmac_sha256 (encode_utf8 secret) (encode_utf8 data))"

section \<open>Files\<close>

text \<open>
  A file either holds a JSON document or text that \<^verbatim>\<open>json.load\<close> rejects. The editor
  writes with \<^verbatim>\<open>json.dump(final_config, f, indent=4, ensure_ascii=False)\<close> and reads with
  \<^verbatim>\<open>json.load\<close>; reading back what was written gives the value that was written, so a
  file is modelled by the value it holds and the indented text is left out.
\<close>

datatype file_content = NotJson | Document json

type_synonym filesystem = "string \<rightharpoonup> file_content"

datatype error = FileNotFoundError | JSONDecodeError | AttributeError | TypeError | KeyError

definition load_config :: "filesystem \<Rightarrow> string \<Rightarrow> error + json" where
  "load_config fs filepath =
     (case fs filepath of
        None \<Rightarrow> Inl FileNotFoundError
      | Some NotJson \<Rightarrow> Inl JSONDecodeError
      | Some (Document data) \<Rightarrow> Inr data)"

text \<open>The truth value of \<^verbatim>\<open>secret: Optional[str]\<close>.\<close>

fun secret_given :: "string option \<Rightarrow> bool" where
  "secret_given None = False"
| "secret_given (Some s) = (s \<noteq> [])"

section \<open>Saving\<close>

text \<open>
  \<^verbatim>\<open>save_config(filepath, data, secret)\<close>, in the three steps of its body:
  \<^item> \<open>core_config\<close>: the copy of \<open>data\<close> after the two \<^verbatim>\<open>pop\<close> calls, which is what
    is encoded and checksummed (\<open>verify_config\<close> makes the same copy);
  \<^item> \<open>build_metadata\<close>: the metadata, one assignment after the other as in the source.
    Its argument \<open>metadata\<close> is what \<^verbatim>\<open>config_copy.pop('__metadata__', {})\<close> returned,
    and \<open>now\<close> is the text that \<^verbatim>\<open>datetime.now().strftime('%Y-%m-%d %H:%M:%S')\<close>
    returns at the call;
  \<^item> \<open>final_config\<close>: the dictionary written to the file, filled key by key.
  The lines printed at the end are not modelled.
\<close>

definition build_metadata :: "py_builtins \<Rightarrow> string \<Rightarrow> json \<Rightarrow> string \<Rightarrow> string option \<Rightarrow> dict" where
  "build_metadata B now metadata core_json secret =
     (let crc_hex = calculate_crc32 core_json;
          metadata = (case metadata of JObj m \<Rightarrow> m | _ \<Rightarrow> []);
          metadata = dict_set ''crc'' (JStr crc_hex) metadata;
          metadata = dict_set ''version''
                       (JInt (case py_int B (dict_get_default metadata ''version'' (JInt 1)) of
                                Some i \<Rightarrow> i | None \<Rightarrow> 1)) metadata;
          metadata = dict_set ''description''
                       (dict_get_default metadata ''description'' (JStr [])) metadata;
          metadata = dict_set ''encrypted''
                       (JBool (truthy (dict_get_default metadata ''encrypted'' (JBool False)))) metadata;
          metadata = (if secret_given secret
                      then dict_set ''hmac'' (JStr (calculate_hmac_sha256 core_json (the secret))) metadata
                      else dict_pop ''hmac'' metadata)
      in dict_set ''timestamp'' (JStr now) metadata)"

definition core_config :: "dict \<Rightarrow> dict" where
  "core_config data = dict_pop ''__update_policy__'' (dict_pop ''__metadata__'' data)"

definition final_config :: "dict \<Rightarrow> dict \<Rightarrow> dict \<Rightarrow> dict" where
  "final_config data metadata config_copy =
     (let final = [(''__metadata__'', JObj metadata)];
          final = (if ''__update_policy__'' \<in> fst ` set data
                   then dict_set ''__update_policy__'' (dict_get data ''__update_policy__'') final
                   else final)
      in fold (\<lambda>(key, value) final. dict_set key value final) config_copy final)"

definition save_config ::
    "py_builtins \<Rightarrow> string \<Rightarrow> filesystem \<Rightarrow> string \<Rightarrow> dict \<Rightarrow> string option \<Rightarrow> filesystem" where
  "save_config B now fs filepath data secret =
     (let metadata = dict_get_default data ''__metadata__'' (JObj []);
          config_copy = core_config data;
          core_json = dump_compact_sorted B (JObj config_copy);
          metadata = build_metadata B now metadata core_json secret
      in fs(filepath \<mapsto> Document (JObj (final_config data metadata config_copy))))"

section \<open>Verifying\<close>

text \<open>
  \<^verbatim>\<open>verify_config(filepath, secret)\<close> returns one \<^verbatim>\<open>bool\<close> and prints one line per
  check it makes. The result keeps both: \<open>crc_valid\<close> and \<open>hmac_valid\<close> are the local
  variables of these names, \<open>None\<close> where the check was not made, and \<open>returned\<close> is the
  value returned. A raise is an \<open>Inl\<close>: \<^verbatim>\<open>.get\<close> on a value that is no dictionary, and
  \<^verbatim>\<open>stored_hmac[:16]\<close> in the line printed for the HMAC on a value that cannot be
  sliced. \<open>check_config\<close> is the body of the function from
  \<^verbatim>\<open>stored_crc = ...\<close> on, reached when the metadata is a non-empty dictionary.
\<close>

record verify_result =
  crc_valid :: "bool option"
  hmac_valid :: "bool option"
  returned :: bool

text \<open>\<^verbatim>\<open>x[:16]\<close> raises on numbers and booleans (\<^verbatim>\<open>TypeError\<close>) and on a dictionary
  (\<^verbatim>\<open>KeyError\<close>; a \<^verbatim>\<open>TypeError\<close> before Python 3.12).\<close>

fun slice_error :: "json \<Rightarrow> error option" where
  "slice_error (JStr s) = None"
| "slice_error (JList xs) = None"
| "slice_error (JObj kvs) = Some KeyError"
| "slice_error _ = Some TypeError"

definition check_config :: "py_builtins \<Rightarrow> dict \<Rightarrow> dict \<Rightarrow> string option \<Rightarrow> error + verify_result" where
  "check_config B data metadata secret =
     (let stored_crc = py_or (dict_get metadata ''crc'') (dict_get metadata ''crc32'');
          stored_hmac = dict_get metadata ''hmac'';
          config_copy = core_config data;
          core_json = dump_compact_sorted B (JObj config_copy);
          calc_crc = calculate_crc32 core_json;
          crc_ok = (stored_crc = JStr calc_crc)
      in if secret_given secret \<and> truthy stored_hmac then
           let calc_hmac = calculate_hmac_sha256 core_json (the secret);
               hmac_ok = (stored_hmac = JStr calc_hmac)
           in case slice_error stored_hmac of
                Some e \<Rightarrow> Inl e
              | None \<Rightarrow>
                  Inr \<lparr>crc_valid = Some crc_ok, hmac_valid = Some hmac_ok,
                       returned = (crc_ok \<and> hmac_ok)\<rparr>
         else Inr \<lparr>crc_valid = Some crc_ok, hmac_valid = None, returned = crc_ok\<rparr>)"

definition verify_config ::
    "py_builtins \<Rightarrow> filesystem \<Rightarrow> string \<Rightarrow> string option \<Rightarrow> error + verify_result" where
  "verify_config B fs filepath secret =
     (case load_config fs filepath of
        Inl e \<Rightarrow> Inl e
      | Inr (JObj data) \<Rightarrow>
          (let metadata = dict_get_default data ''__metadata__'' (JObj []) in
           if \<not> truthy metadata
           then Inr \<lparr>crc_valid = None, hmac_valid = None, returned = False\<rparr>
           else case metadata of
                  JObj m \<Rightarrow> check_config B data m secret
                | _ \<Rightarrow> Inl AttributeError)
      | Inr _ \<Rightarrow> Inl AttributeError)"

section \<open>Values that differ only in the order of keys\<close>

text \<open>
  \<open>reordered u v\<close>: \<open>v\<close> is \<open>u\<close> with the entries of some of its dictionaries, at any
  depth, listed in another order. It is the least relation that permutes the entries of
  one dictionary (\<open>permuted\<close>), does so inside an entry of a dictionary (\<open>in_dict\<close>) or
  inside an element of a list (\<open>in_list\<close>), and repeats (\<open>same\<close>, \<open>chain\<close>).
\<close>

inductive reordered :: "json \<Rightarrow> json \<Rightarrow> bool" where
  same: "reordered v v"
| permuted: "mset dct = mset dct' \<Longrightarrow> reordered (JObj dct) (JObj dct')"
| in_dict: "reordered v v' \<Longrightarrow> reordered (JObj (xs @ (k, v) # ys)) (JObj (xs @ (k, v') # ys))"
| in_list: "reordered v v' \<Longrightarrow> reordered (JList (xs @ v # ys)) (JList (xs @ v' # ys))"
| chain: "reordered u v \<Longrightarrow> reordered v w \<Longrightarrow> reordered u w"

text \<open>The example of the specification, with its keys in the order written there.\<close>

definition example_value :: json where
  "example_value =
     JObj [(''a'', JInt 1), (''b'', JObj [(''z'', JBool True), (''y'', JStr ''x'')])]"

text \<open>One entry of a dictionary as the canonical encoder writes it.\<close>

definition entry :: "py_builtins \<Rightarrow> string \<times> json \<Rightarrow> string" where
  "entry B = (\<lambda>(key, value). encode_basestring key @ '':'' @ dump_compact_sorted B value)"

text \<open>The value of a string of hexadecimal digits.\<close>

definition digit_value :: "char \<Rightarrow> nat" where
  "digit_value c = length (takeWhile (\<lambda>d. d \<noteq> c) ''0123456789abcdef'')"

definition hex_value :: "string \<Rightarrow> nat" where
  "hex_value s = foldl (\<lambda>a c. 16 * a + digit_value c) 0 s"

text \<open>
  The line printed for the HMAC slices the stored signature. \<open>hmac_printable m\<close>: the
  metadata \<open>m\<close> stores no signature, or one the check skips, or one that can be sliced (a
  string, as the editor writes it). Then verification does not raise, whatever the secret.
\<close>

definition hmac_printable :: "dict \<Rightarrow> bool" where
  "hmac_printable m = (case map_of m ''hmac'' of
                         None \<Rightarrow> True
                       | Some v \<Rightarrow> \<not> truthy v \<or> slice_error v = None)"

text \<open>
  A change made to a saved file behind the editor's back: the top-level entry \<open>k\<close> of the
  stored document is set to \<open>v\<close> and the metadata is left as it was. Changing a leaf at
  any depth is setting the top-level entry that holds it.
\<close>

definition tamper :: "string \<Rightarrow> json \<Rightarrow> filesystem \<Rightarrow> string \<Rightarrow> filesystem" where
  "tamper k v fs filepath =
     (case fs filepath of
        Some (Document (JObj data)) \<Rightarrow> fs(filepath \<mapsto> Document (JObj (dict_set k v data)))
      | _ \<Rightarrow> fs)"

section \<open>Properties of the canonical encoder\<close>

lemma dump_JObj:
  "dump_compact_sorted B (JObj dct) =
     (if dct = [] then ''{}''
      else ''{'' @ join_items '','' (map (entry B) (sort_key fst dct)) @ ''}'')"
  by (simp add: dump_compact_sorted_def entry_def)

lemma dump_JList:
  "dump_compact_sorted B (JList xs) =
     (if xs = [] then ''[]''
      else ''['' @ join_items '','' (map (dump_compact_sorted B) xs) @ '']'')"
  unfolding dump_compact_sorted_def [abs_def] by simp

text \<open>Sorting by key and rendering the values can be done in either order.\<close>

lemma insort_key_map_value:
  "insort_key fst (k, f v) (map (\<lambda>(k, v). (k, f v)) ys) =
     map (\<lambda>(k, v). (k, f v)) (insort_key fst (k, v) ys)"
  by (induction ys) auto

lemma sort_key_map_value:
  "sort_key fst (map (\<lambda>(k, v). (k, f v)) xs) = map (\<lambda>(k, v). (k, f v)) (sort_key fst xs)"
  by (induction xs) (auto simp: insort_key_map_value)

lemma entries_via_rendered:
  "map (entry B) (sort_key fst dct) =
     map (\<lambda>(k, s). encode_basestring k @ '':'' @ s)
       (sort_key fst (map (\<lambda>(k, v). (k, dump_compact_sorted B v)) dct))"
  by (simp only: sort_key_map_value map_map) (simp add: entry_def comp_def case_prod_unfold)

lemma dump_JObj_cong:
  assumes "map (\<lambda>(k, v). (k, dump_compact_sorted B v)) dct =
           map (\<lambda>(k, v). (k, dump_compact_sorted B v)) dct'"
  shows "dump_compact_sorted B (JObj dct) = dump_compact_sorted B (JObj dct')"
proof -
  from assms have "length dct = length dct'"
    by (metis length_map)
  then have "dct = [] \<longleftrightarrow> dct' = []" by auto
  with assms show ?thesis
    by (simp add: dump_JObj entries_via_rendered)
qed

lemma dump_JList_cong:
  assumes "map (dump_compact_sorted B) xs = map (dump_compact_sorted B) ys"
  shows "dump_compact_sorted B (JList xs) = dump_compact_sorted B (JList ys)"
proof -
  from assms have "length xs = length ys"
    by (metis length_map)
  then have "xs = [] \<longleftrightarrow> ys = []" by auto
  with assms show ?thesis
    by (simp add: dump_JList)
qed

lemma dump_permuted:
  assumes "mset dct = mset dct'" and "distinct (map fst dct)"
  shows "dump_compact_sorted B (JObj dct) = dump_compact_sorted B (JObj dct')"
proof -
  from assms(2) have "inj_on fst (set dct)"
    by (simp add: distinct_map)
  with assms(1) have "sort_key fst dct = sort_key fst dct'"
    by (rule sort_key_eq_sort_key)
  moreover from assms(1) have "dct = [] \<longleftrightarrow> dct' = []"
    by (metis mset_zero_iff)
  ultimately show ?thesis
    by (simp add: dump_JObj)
qed

lemma wf_permuted:
  assumes "mset dct = mset dct'" and "wf_json (JObj dct)"
  shows "wf_json (JObj dct')"
proof -
  from assms(1) have "mset (map fst dct) = mset (map fst dct')"
    by (metis mset_map)
  then have "distinct (map fst dct) = distinct (map fst dct')"
    by (rule mset_eq_imp_distinct_iff)
  moreover from assms(1) have "set dct = set dct'"
    by (rule mset_eq_setD)
  ultimately show ?thesis
    using assms(2) by simp
qed

lemma reordered_dump:
  "reordered u v \<Longrightarrow> wf_json u \<Longrightarrow> wf_json v \<and> dump_compact_sorted B u = dump_compact_sorted B v"
proof (induction rule: reordered.induct)
  case (same v)
  then show ?case by simp
next
  case (permuted dct dct')
  then show ?case
    using wf_permuted [of dct dct'] dump_permuted [of dct dct' B] by simp
next
  case (in_dict v v' xs k ys)
  then have "wf_json v" by simp
  with in_dict.IH have "wf_json v'" and "dump_compact_sorted B v = dump_compact_sorted B v'"
    by simp_all
  then show ?case
    using in_dict.prems by (auto intro!: dump_JObj_cong)
next
  case (in_list v v' xs ys)
  then have "wf_json v" by simp
  with in_list.IH have "wf_json v'" and "dump_compact_sorted B v = dump_compact_sorted B v'"
    by simp_all
  then show ?case
    using in_list.prems by (auto intro!: dump_JList_cong)
next
  case (chain u v w)
  then show ?case by simp
qed






lemma wf_example: "wf_json example_value"
  by (simp add: example_value_def)

lemma reordered_example:
  "reordered example_value
     (JObj [(''b'', JObj [(''y'', JStr ''x''), (''z'', JBool True)]), (''a'', JInt 1)])"
proof -
  have "reordered (JObj [(''z'', JBool True), (''y'', JStr ''x'')])
          (JObj [(''y'', JStr ''x''), (''z'', JBool True)])"
    by (rule reordered.permuted) simp
  then have "reordered
          (JObj ([(''a'', JInt 1)] @ (''b'', JObj [(''z'', JBool True), (''y'', JStr ''x'')]) # []))
          (JObj ([(''a'', JInt 1)] @ (''b'', JObj [(''y'', JStr ''x''), (''z'', JBool True)]) # []))"
    by (rule reordered.in_dict)
  moreover have "reordered
          (JObj [(''a'', JInt 1), (''b'', JObj [(''y'', JStr ''x''), (''z'', JBool True)])])
          (JObj [(''b'', JObj [(''y'', JStr ''x''), (''z'', JBool True)]), (''a'', JInt 1)])"
    by (rule reordered.permuted) simp
  ultimately show ?thesis
    unfolding example_value_def by (simp add: reordered.chain)
qed



text \<open>
  C2. Two values that differ only in the order in which their dictionaries list their
  keys, at any depth, have the same canonical string. (Each dictionary holds a key once,
  as a Python dictionary does: \<open>wf_json\<close>.)
\<close>

theorem key_order_independent:
  "wf_json u \<Longrightarrow> reordered u v \<Longrightarrow> dump_compact_sorted B u = dump_compact_sorted B v"
  using reordered_dump by blast

theorem key_order_independent_witness:
  "wf_json example_value \<and>
   reordered example_value
     (JObj [(''b'', JObj [(''y'', JStr ''x''), (''z'', JBool True)]), (''a'', JInt 1)]) \<and>
   dump_compact_sorted \<lparr>float_repr = (\<lambda>w. ''0.0''), int_of_str = (\<lambda>s. None)\<rparr> example_value =
   dump_compact_sorted \<lparr>float_repr = (\<lambda>w. ''0.0''), int_of_str = (\<lambda>s. None)\<rparr>
     (JObj [(''b'', JObj [(''y'', JStr ''x''), (''z'', JBool True)]), (''a'', JInt 1)])"
  using wf_example reordered_example
    key_order_independent [OF wf_example reordered_example]
  by (intro conjI)

section \<open>Properties of the dictionary operations\<close>

lemma map_of_dict_set: "map_of (dict_set k v d) k' = (if k' = k then Some v else map_of d k')"
  by (induction d) auto

lemma map_of_dict_pop: "map_of (dict_pop k d) k' = (if k' = k then None else map_of d k')"
  by (induction d) (auto simp: dict_pop_def)

lemma dict_set_nonempty: "dict_set k v d \<noteq> []"
  by (cases d) (auto split: if_splits)

lemma keys_dict_pop: "fst ` set (dict_pop k d) = fst ` set d - {k}"
  by (auto simp: dict_pop_def image_iff)

lemma distinct_dict_pop: "distinct (map fst d) \<Longrightarrow> distinct (map fst (dict_pop k d))"
  by (induction d) (auto simp: dict_pop_def)

lemma dict_pop_absent: "k \<notin> fst ` set d \<Longrightarrow> dict_pop k d = d"
  by (induction d) (auto simp: dict_pop_def)

lemma dict_pop_append: "dict_pop k (xs @ ys) = dict_pop k xs @ dict_pop k ys"
  by (simp add: dict_pop_def)

lemma dict_set_new: "k \<notin> fst ` set d \<Longrightarrow> dict_set k v d = d @ [(k, v)]"
  by (induction d) auto

lemma fold_dict_set_new:
  "distinct (map fst xs) \<Longrightarrow> fst ` set xs \<inter> fst ` set init = {} \<Longrightarrow>
   fold (\<lambda>(key, value) final. dict_set key value final) xs init = init @ xs"
proof (induction xs arbitrary: init)
  case Nil
  then show ?case by simp
next
  case (Cons x xs)
  obtain k v where x: "x = (k, v)" by (cases x)
  from Cons.prems x have new: "k \<notin> fst ` set init" by auto
  from Cons.prems x have "fst ` set xs \<inter> fst ` set (init @ [(k, v)]) = {}"
    by (auto simp: image_iff)
  with Cons.IH [of "init @ [(k, v)]"] Cons.prems
  show ?case
    by (simp add: x dict_set_new [OF new])
qed

lemma keys_core_config: "fst ` set (core_config data) = fst ` set data - {''__metadata__'', ''__update_policy__''}"
  by (auto simp: core_config_def keys_dict_pop)

lemma distinct_core_config: "distinct (map fst data) \<Longrightarrow> distinct (map fst (core_config data))"
  by (simp add: core_config_def distinct_dict_pop)

lemma core_config_idem: "core_config (core_config data) = core_config data"
  by (induction data) (auto simp: core_config_def dict_pop_def)

lemma core_config_cons_metadata: "core_config ((''__metadata__'', x) # d) = core_config d"
  by (simp add: core_config_def dict_pop_def)

lemma core_config_cons_policy: "core_config ((''__update_policy__'', x) # d) = core_config d"
  by (simp add: core_config_def dict_pop_def)

lemma final_config_eq:
  assumes "distinct (map fst data)"
  shows "final_config data metadata (core_config data) =
           (''__metadata__'', JObj metadata)
             # (if ''__update_policy__'' \<in> fst ` set data
                then [(''__update_policy__'', dict_get data ''__update_policy__'')] else [])
             @ core_config data"
  using distinct_core_config [OF assms]
  by (auto simp: final_config_def fold_dict_set_new keys_core_config)

lemma core_of_final_config:
  assumes "distinct (map fst data)"
  shows "core_config (final_config data metadata (core_config data)) = core_config data"
  by (simp add: final_config_eq [OF assms] core_config_cons_metadata core_config_cons_policy
      core_config_idem)

lemma metadata_of_final_config:
  "distinct (map fst data) \<Longrightarrow>
   dict_get_default (final_config data metadata (core_config data)) ''__metadata__'' dflt = JObj metadata"
  by (simp add: final_config_eq dict_get_default_def)

section \<open>Saving, then verifying\<close>

lemma digits_of_nat_nonempty: "digits_of_nat b n \<noteq> []"
  by (subst digits_of_nat.simps) simp

lemma format_0x_nonempty: "format_0x w n \<noteq> []"
  by (simp add: format_0x_def Let_def digits_of_nat_nonempty)

lemma calculate_crc32_nonempty: "calculate_crc32 data \<noteq> []"
  by (simp add: calculate_crc32_def Let_def format_0x_nonempty)

lemma sha256_nonempty: "sha256 msg \<noteq> []"
proof -
  obtain a b c d e f g h where
    "fold sha256_compress (chunks 64 (sha256_pad msg)) sha256_init = (a, b, c, d, e, f, g, h)"
    by (metis prod_cases3)
  then show ?thesis
    by (simp add: sha256_def be32_bytes_def)
qed

lemma hexdigest_nonempty: "bs \<noteq> [] \<Longrightarrow> hexdigest bs \<noteq> []"
  by (cases bs) (simp_all add: hexdigest_def format_0x_nonempty)

lemma calculate_hmac_sha256_nonempty: "calculate_hmac_sha256 data secret \<noteq> []"
  by (simp add: calculate_hmac_sha256_def hmac_sha256_def Let_def hexdigest_nonempty sha256_nonempty)

lemma build_metadata_crc:
  "map_of (build_metadata B now metadata core_json secret) ''crc'' =
     Some (JStr (calculate_crc32 core_json))"
  by (simp add: build_metadata_def Let_def map_of_dict_set map_of_dict_pop)

lemma build_metadata_hmac:
  "map_of (build_metadata B now metadata core_json secret) ''hmac'' =
     (if secret_given secret then Some (JStr (calculate_hmac_sha256 core_json (the secret)))
      else None)"
  by (simp add: build_metadata_def Let_def map_of_dict_set map_of_dict_pop)

lemma build_metadata_crc32:
  "map_of (build_metadata B now metadata core_json secret) ''crc32'' =
     map_of (case metadata of JObj m \<Rightarrow> m | _ \<Rightarrow> []) ''crc32''"
  by (simp add: build_metadata_def Let_def map_of_dict_set map_of_dict_pop)

lemma build_metadata_nonempty: "build_metadata B now metadata core_json secret \<noteq> []"
  by (simp add: build_metadata_def Let_def dict_set_nonempty)

lemma saved_document:
  "save_config B now fs filepath data secret filepath =
     Some (Document (JObj (final_config data
        (build_metadata B now (dict_get_default data ''__metadata__'' (JObj []))
           (dump_compact_sorted B (JObj (core_config data))) secret)
        (core_config data))))"
  by (simp add: save_config_def Let_def)

lemma verify_document:
  assumes "fs filepath = Some (Document (JObj data))"
    and "dict_get_default data ''__metadata__'' (JObj []) = JObj m" and "m \<noteq> []"
  shows "verify_config B fs filepath secret = check_config B data m secret"
  using assms by (simp add: verify_config_def load_config_def)

text \<open>
  C3. A document saved with a non-empty secret and verified with the same secret passes
  both checks: \<open>crc_valid\<close> and \<open>hmac_valid\<close> are true, and so is the value returned.
  (\<open>data\<close> is a Python dictionary: it holds each key once.)
\<close>

theorem save_then_verify:
  assumes "distinct (map fst data)" and "s \<noteq> []"
  shows "verify_config B (save_config B now fs filepath data (Some s)) filepath (Some s) =
           Inr \<lparr>crc_valid = Some True, hmac_valid = Some True, returned = True\<rparr>"
proof -
  define core_json where "core_json = dump_compact_sorted B (JObj (core_config data))"
  define m where "m = build_metadata B now (dict_get_default data ''__metadata__'' (JObj [])) core_json (Some s)"
  define final where "final = final_config data m (core_config data)"
  have saved: "save_config B now fs filepath data (Some s) filepath = Some (Document (JObj final))"
    by (simp add: saved_document final_def m_def core_json_def)
  have meta: "dict_get_default final ''__metadata__'' (JObj []) = JObj m"
    using assms(1) by (simp add: final_def metadata_of_final_config)
  have core: "core_config final = core_config data"
    using assms(1) by (simp add: final_def core_of_final_config)
  have crc: "dict_get m ''crc'' = JStr (calculate_crc32 core_json)"
    by (simp add: dict_get_def m_def build_metadata_crc)
  have hmac: "dict_get m ''hmac'' = JStr (calculate_hmac_sha256 core_json s)"
    using assms(2) by (simp add: dict_get_def m_def build_metadata_hmac)
  have "verify_config B (save_config B now fs filepath data (Some s)) filepath (Some s) =
        check_config B final m (Some s)"
    using saved meta by (rule verify_document) (simp add: m_def build_metadata_nonempty)
  also have "\<dots> = Inr \<lparr>crc_valid = Some True, hmac_valid = Some True, returned = True\<rparr>"
    using assms(2)
    by (simp add: check_config_def Let_def core crc hmac py_or_def calculate_crc32_nonempty
        calculate_hmac_sha256_nonempty flip: core_json_def)
  finally show ?thesis .
qed

theorem save_then_verify_witness:
  "distinct (map fst [(''a'', JInt 1)]) \<and> ''k'' \<noteq> [] \<and>
   verify_config \<lparr>float_repr = (\<lambda>w. ''0.0''), int_of_str = (\<lambda>s. None)\<rparr>
     (save_config \<lparr>float_repr = (\<lambda>w. ''0.0''), int_of_str = (\<lambda>s. None)\<rparr>
        ''2025-01-01 00:00:00'' Map.empty ''config.json'' [(''a'', JInt 1)] (Some ''k''))
     ''config.json'' (Some ''k'') =
   Inr \<lparr>crc_valid = Some True, hmac_valid = Some True, returned = True\<rparr>"
proof -
  have d: "distinct (map fst [(''a'', JInt 1)])" and s: "''k'' \<noteq> []"
    by simp_all
  show ?thesis
    using d s save_then_verify [OF d s] by (intro conjI)
qed

section \<open>The checksum\<close>

lemma index_of_nth: "distinct xs \<Longrightarrow> k < length xs \<Longrightarrow> length (takeWhile (\<lambda>d. d \<noteq> xs ! k) xs) = k"
proof (induction xs arbitrary: k)
  case Nil
  then show ?case by simp
next
  case (Cons x xs)
  then show ?case
    by (cases k) auto
qed

lemma digit_value_digit_char: "k < 16 \<Longrightarrow> digit_value (digit_char k) = k"
  unfolding digit_value_def digit_char_def by (rule index_of_nth) simp_all

lemma digit_char_hex: "k < 16 \<Longrightarrow> digit_char k \<in> set ''0123456789abcdef''"
  unfolding digit_char_def by (rule nth_mem) simp

lemma hex_value_append: "hex_value (xs @ [c]) = 16 * hex_value xs + digit_value c"
  by (simp add: hex_value_def)

lemma hex_value_digits: "hex_value (digits_of_nat 16 n) = n"
proof (induction "16 :: nat" n rule: digits_of_nat.induct)
  case (1 n)
  show ?case
  proof (cases "n < 16")
    case True
    then show ?thesis
      by (subst digits_of_nat.simps) (simp add: hex_value_def digit_value_digit_char)
  next
    case False
    with 1 have "hex_value (digits_of_nat 16 (n div 16)) = n div 16"
      by simp
    with False show ?thesis
      by (subst digits_of_nat.simps) (simp add: hex_value_append digit_value_digit_char)
  qed
qed

lemma hex_digits_of_nat: "list_all (\<lambda>c. c \<in> set ''0123456789abcdef'') (digits_of_nat 16 n)"
proof (induction "16 :: nat" n rule: digits_of_nat.induct)
  case (1 n)
  show ?case
  proof (cases "n < 16")
    case True
    then show ?thesis
      using digit_char_hex [of n] by (subst digits_of_nat.simps) simp
  next
    case False
    with 1 have "list_all (\<lambda>c. c \<in> set ''0123456789abcdef'') (digits_of_nat 16 (n div 16))"
      by simp
    with False show ?thesis
      using digit_char_hex [of "n mod 16"] by (subst digits_of_nat.simps) simp
  qed
qed

lemma length_digits_of_nat: "0 < k \<Longrightarrow> n < 16 ^ k \<Longrightarrow> length (digits_of_nat 16 n) \<le> k"
proof (induction "16 :: nat" n arbitrary: k rule: digits_of_nat.induct)
  case (1 n)
  show ?case
  proof (cases "n < 16")
    case True
    with 1(2) show ?thesis
      by (subst digits_of_nat.simps) simp
  next
    case False
    with 1(3) have "1 < k"
      by (cases "k = 1") (use 1(2) in auto)
    then obtain j where k: "k = Suc j" and j: "0 < j"
      by (cases k) auto
    from 1(3) k have "n div 16 < 16 ^ j"
      by (simp add: less_mult_imp_div_less mult.commute)
    with 1(1) [of j] False j have "length (digits_of_nat 16 (n div 16)) \<le> j"
      by simp
    with False k show ?thesis
      by (subst digits_of_nat.simps) simp
  qed
qed

lemma hex_value_zeros: "hex_value (replicate j CHR ''0'' @ s) = hex_value s"
proof -
  have "foldl (\<lambda>a c. 16 * a + digit_value c) 0 (replicate j CHR ''0'') = 0"
    by (induction j) (simp_all add: digit_value_def)
  then show ?thesis
    by (simp add: hex_value_def)
qed

lemma hex_value_format: "hex_value (format_0x w n) = n"
  by (simp add: format_0x_def Let_def hex_value_zeros hex_value_digits)

lemma hex_format: "list_all (\<lambda>c. c \<in> set ''0123456789abcdef'') (format_0x w n)"
proof -
  have "list_all (\<lambda>c. c \<in> set ''0123456789abcdef'') (replicate j CHR ''0'')" for j
    by (induction j) simp_all
  then show ?thesis
    unfolding format_0x_def Let_def list_all_append using hex_digits_of_nat [of n] by blast
qed

lemma length_format: "0 < w \<Longrightarrow> n < 16 ^ w \<Longrightarrow> length (format_0x w n) = w"
  using length_digits_of_nat [of w n] by (simp add: format_0x_def Let_def)

lemma crc_mask: "binascii_crc32 data AND 0xFFFFFFFF = binascii_crc32 data"
proof -
  have "binascii_crc32 data < 2 ^ 32"
    unfolding binascii_crc32_def using unsigned_less [of "zlib_crc32 0 data", where 'a = nat] by simp
  then have "take_bit 32 (binascii_crc32 data) = binascii_crc32 data"
    by (simp add: take_bit_nat_eq_self)
  moreover have "(0xFFFFFFFF :: nat) = mask 32"
    by (simp add: mask_eq_exp_minus_1)
  ultimately show ?thesis
    by (simp add: take_bit_eq_mask)
qed

lemma calculate_crc32_eq: "calculate_crc32 data = format_0x 8 (unat (zlib_crc32 0 (encode_utf8 data)))"
  by (simp add: calculate_crc32_def Let_def crc_mask) (simp add: binascii_crc32_def)

lemma replicate_numeral: "replicate (numeral k) x = x # replicate (pred_numeral k) x"
  by (simp add: numeral_eq_Suc)

lemma crc_fixture_empty_object: "calculate_crc32 ''{}'' = ''a3a6bf43''"
  apply (simp add: calculate_crc32_eq zlib_crc32_def encode_utf8_def crc_byte_def crc_shift_def)
  apply (simp add: format_0x_def)
  apply (simp add: digits_of_nat.simps digit_char_def replicate_numeral)
  done

lemma crc_fixture_check: "calculate_crc32 ''123456789'' = ''cbf43926''"
  apply (simp add: calculate_crc32_eq zlib_crc32_def encode_utf8_def crc_byte_def crc_shift_def)
  apply (simp add: format_0x_def)
  apply (simp add: digits_of_nat.simps digit_char_def replicate_numeral)
  done

text \<open>
  C4. The checksum of a string is zlib's CRC-32 with starting value 0 over the UTF-8 bytes
  of the string, written as exactly eight lowercase hexadecimal digits, with zeros on the
  left: the eight digits read as a hexadecimal number are the CRC. The checksum of
  \<^verbatim>\<open>{}\<close> is \<^verbatim>\<open>a3a6bf43\<close>, and that of \<^verbatim>\<open>123456789\<close> is \<^verbatim>\<open>cbf43926\<close>, the
  check value of the standard CRC-32.
\<close>

theorem checksum_crc32_hex8:
  "calculate_crc32 data = format_0x 8 (unat (zlib_crc32 0 (encode_utf8 data))) \<and>
   length (calculate_crc32 data) = 8 \<and>
   list_all (\<lambda>c. c \<in> set ''0123456789abcdef'') (calculate_crc32 data) \<and>
   hex_value (calculate_crc32 data) = unat (zlib_crc32 0 (encode_utf8 data)) \<and>
   calculate_crc32 ''{}'' = ''a3a6bf43'' \<and>
   calculate_crc32 ''123456789'' = ''cbf43926''"
proof -
  have "unat (zlib_crc32 0 (encode_utf8 data)) < 16 ^ 8"
    using unsigned_less [of "zlib_crc32 0 (encode_utf8 data)", where 'a = nat] by simp
  then have "length (calculate_crc32 data) = 8"
    by (simp add: calculate_crc32_eq length_format)
  then show ?thesis
    using hex_format [of 8 "unat (zlib_crc32 0 (encode_utf8 data))"]
    by (simp add: calculate_crc32_eq [of data] hex_value_format crc_fixture_empty_object
        crc_fixture_check)
qed

section \<open>Properties of verification\<close>

lemma map_fst_dict_set:
  "map fst (dict_set k v d) = (if k \<in> fst ` set d then map fst d else map fst d @ [k])"
  by (induction d) (force simp: image_iff)+

lemma keys_dict_set: "fst ` set (dict_set k v d) = insert k (fst ` set d)"
proof -
  have "set (map fst (dict_set k v d)) = insert k (set (map fst d))"
    unfolding map_fst_dict_set by auto
  then show ?thesis by simp
qed

lemma build_metadata_no_hmac:
  "\<not> secret_given secret \<Longrightarrow> ''hmac'' \<notin> fst ` set (build_metadata B now metadata core_json secret)"
  by (simp add: build_metadata_def Let_def keys_dict_set keys_dict_pop)

lemma fold_dict_set_head:
  "k \<notin> fst ` set xs \<Longrightarrow>
   \<exists>rest. fold (\<lambda>(key, value) final. dict_set key value final) xs ((k, v) # init) = (k, v) # rest"
proof (induction xs arbitrary: init)
  case Nil
  then show ?case by simp
next
  case (Cons x xs)
  obtain k' v' where x: "x = (k', v')" by (cases x)
  with Cons.prems have "k' \<noteq> k" and "k \<notin> fst ` set xs" by auto
  with Cons.IH [of "dict_set k' v' init"] x show ?case
    by auto
qed

lemma final_config_head:
  "\<exists>rest. final_config data metadata (core_config data) = (''__metadata__'', JObj metadata) # rest"
proof -
  have "''__metadata__'' \<notin> fst ` set (core_config data)"
    by (simp add: keys_core_config)
  then show ?thesis
    unfolding final_config_def Let_def
    by (cases "''__update_policy__'' \<in> fst ` set data") (simp_all add: fold_dict_set_head)
qed

lemma check_config_result:
  assumes "hmac_printable m \<or> \<not> secret_given secret"
  shows "\<exists>h. check_config B data m secret =
           Inr \<lparr>crc_valid = Some (py_or (dict_get m ''crc'') (dict_get m ''crc32'') =
                                   JStr (calculate_crc32 (dump_compact_sorted B (JObj (core_config data))))),
                hmac_valid = h,
                returned = (py_or (dict_get m ''crc'') (dict_get m ''crc32'') =
                              JStr (calculate_crc32 (dump_compact_sorted B (JObj (core_config data))))
                            \<and> h \<noteq> Some False)\<rparr>"
  using assms
  by (auto simp: check_config_def Let_def hmac_printable_def dict_get_def split: option.splits)

lemma check_config_skips_hmac:
  assumes "\<not> secret_given secret \<or> map_of m ''hmac'' = None"
  shows "check_config B data m secret =
           Inr \<lparr>crc_valid = Some (py_or (dict_get m ''crc'') (dict_get m ''crc32'') =
                                   JStr (calculate_crc32 (dump_compact_sorted B (JObj (core_config data))))),
                hmac_valid = None,
                returned = (py_or (dict_get m ''crc'') (dict_get m ''crc32'') =
                              JStr (calculate_crc32 (dump_compact_sorted B (JObj (core_config data)))))\<rparr>"
  using assms
  by (auto simp: check_config_def Let_def dict_get_def)

lemma verify_document_metadata:
  assumes "fs filepath = Some (Document (JObj data))"
    and "map_of data ''__metadata__'' = Some (JObj m)" and "m \<noteq> []"
  shows "verify_config B fs filepath secret = check_config B data m secret"
proof -
  from assms(2) have "dict_get_default data ''__metadata__'' (JObj []) = JObj m"
    by (simp add: dict_get_default_def)
  with assms(1) show ?thesis
    using assms(3) by (rule verify_document)
qed

lemma dump_empty_object: "dump_compact_sorted B (JObj []) = ''{}''"
  by (simp add: dump_compact_sorted_def)

lemma core_of_metadata_only: "core_config [(''__metadata__'', x)] = []"
  by (simp add: core_config_def dict_pop_def)

section \<open>Changing a saved document\<close>

lemma dict_pop_dict_set: "j \<noteq> k \<Longrightarrow> dict_pop j (dict_set k v d) = dict_set k v (dict_pop j d)"
  by (induction d) (auto simp: dict_pop_def)

lemma core_config_dict_set:
  "k \<noteq> ''__metadata__'' \<Longrightarrow> k \<noteq> ''__update_policy__'' \<Longrightarrow>
   core_config (dict_set k v d) = dict_set k v (core_config d)"
  by (simp add: core_config_def dict_pop_dict_set)

lemma dict_get_default_dict_set:
  "j \<noteq> k \<Longrightarrow> dict_get_default (dict_set k v d) j dflt = dict_get_default d j dflt"
  by (simp add: dict_get_default_def map_of_dict_set)

lemma build_metadata_printable: "hmac_printable (build_metadata B now metadata core_json secret)"
  by (simp add: hmac_printable_def build_metadata_hmac)

lemma tampered_file:
  "tamper k v (save_config B now fs filepath data saved_secret) filepath filepath =
     Some (Document (JObj (dict_set k v (final_config data
        (build_metadata B now (dict_get_default data ''__metadata__'' (JObj []))
           (dump_compact_sorted B (JObj (core_config data))) saved_secret)
        (core_config data)))))"
  by (simp add: tamper_def saved_document)

lemma verify_tampered:
  assumes "distinct (map fst data)" and "k \<noteq> ''__metadata__''" and "k \<noteq> ''__update_policy__''"
  shows "verify_config B (tamper k v (save_config B now fs filepath data saved_secret) filepath)
           filepath secret =
         check_config B
           (dict_set k v (final_config data
              (build_metadata B now (dict_get_default data ''__metadata__'' (JObj []))
                 (dump_compact_sorted B (JObj (core_config data))) saved_secret)
              (core_config data)))
           (build_metadata B now (dict_get_default data ''__metadata__'' (JObj []))
              (dump_compact_sorted B (JObj (core_config data))) saved_secret)
           secret"
proof -
  define m where "m = build_metadata B now (dict_get_default data ''__metadata__'' (JObj []))
    (dump_compact_sorted B (JObj (core_config data))) saved_secret"
  define final where "final = final_config data m (core_config data)"
  have "tamper k v (save_config B now fs filepath data saved_secret) filepath filepath =
      Some (Document (JObj (dict_set k v final)))"
    by (simp add: tampered_file final_def m_def)
  moreover have "dict_get_default (dict_set k v final) ''__metadata__'' (JObj []) = JObj m"
    using assms(1,2) by (simp add: dict_get_default_dict_set final_def metadata_of_final_config)
  moreover have "m \<noteq> []"
    by (simp add: m_def build_metadata_nonempty)
  ultimately have "verify_config B (tamper k v (save_config B now fs filepath data saved_secret) filepath)
      filepath secret = check_config B (dict_set k v final) m secret"
    by (rule verify_document)
  then show ?thesis
    by (simp add: final_def m_def)
qed

lemma core_of_tampered:
  assumes "distinct (map fst data)" and "k \<noteq> ''__metadata__''" and "k \<noteq> ''__update_policy__''"
  shows "core_config (dict_set k v (final_config data metadata (core_config data))) =
           dict_set k v (core_config data)"
  using assms by (simp add: core_config_dict_set core_of_final_config)

lemma stored_crc_of_saved:
  "py_or (dict_get (build_metadata B now metadata core_json secret) ''crc'')
         (dict_get (build_metadata B now metadata core_json secret) ''crc32'') =
     JStr (calculate_crc32 core_json)"
  by (simp add: py_or_def dict_get_def build_metadata_crc calculate_crc32_nonempty)

lemma verify_tampered_no_secret:
  assumes "distinct (map fst data)" and "k \<noteq> ''__metadata__''" and "k \<noteq> ''__update_policy__''"
  shows "verify_config B (tamper k v (save_config B now fs filepath data saved_secret) filepath)
           filepath None =
         Inr \<lparr>crc_valid =
                Some (calculate_crc32 (dump_compact_sorted B (JObj (core_config data))) =
                      calculate_crc32 (dump_compact_sorted B (JObj (dict_set k v (core_config data))))),
              hmac_valid = None,
              returned =
                (calculate_crc32 (dump_compact_sorted B (JObj (core_config data))) =
                 calculate_crc32 (dump_compact_sorted B (JObj (dict_set k v (core_config data)))))\<rparr>"
  by (simp add: verify_tampered [OF assms] check_config_skips_hmac core_of_tampered [OF assms]
      stored_crc_of_saved)

lemma dump_single_int:
  \<open>dump_compact_sorted B (JObj [(''a'', JInt 73071323)]) = ''{"a":73071323}''\<close>
  \<open>dump_compact_sorted B (JObj [(''a'', JInt 68694196)]) = ''{"a":68694196}''\<close>
  by (simp_all add: dump_compact_sorted_def int_repr_def digits_of_nat.simps digit_char_def
      encode_basestring_def escape_char_def)

lemma crc_collision:
  \<open>calculate_crc32 ''{"a":73071323}'' = ''c6f9ffa5''\<close>
  \<open>calculate_crc32 ''{"a":68694196}'' = ''c6f9ffa5''\<close>
   apply (simp_all add: calculate_crc32_eq zlib_crc32_def encode_utf8_def crc_byte_def crc_shift_def)
   apply (simp_all add: format_0x_def)
   apply (simp_all add: digits_of_nat.simps digit_char_def replicate_numeral)
  done

text \<open>
  C5, as amended. After a document is saved, setting an entry of its core to another value
  makes verification report \<open>crc_valid\<close> false exactly when the canonical string of the
  changed core has another CRC-32 than the canonical string of the saved core. A change
  that keeps the CRC-32 passes the checksum.
\<close>

theorem tamper_detected_unless_collision:
  assumes "distinct (map fst data)" and "k \<noteq> ''__metadata__''" and "k \<noteq> ''__update_policy__''"
  shows "\<exists>r. verify_config B (tamper k v (save_config B now fs filepath data saved_secret) filepath)
               filepath secret = Inr r \<and>
             crc_valid r =
               Some (calculate_crc32 (dump_compact_sorted B (JObj (core_config data))) =
                     calculate_crc32 (dump_compact_sorted B (JObj (dict_set k v (core_config data)))))"
proof -
  define m where "m = build_metadata B now (dict_get_default data ''__metadata__'' (JObj []))
    (dump_compact_sorted B (JObj (core_config data))) saved_secret"
  define final where "final = dict_set k v (final_config data m (core_config data))"
  have "hmac_printable m \<or> \<not> secret_given secret"
    by (simp add: m_def build_metadata_printable)
  then obtain h where "check_config B final m secret =
      Inr \<lparr>crc_valid = Some (py_or (dict_get m ''crc'') (dict_get m ''crc32'') =
                              JStr (calculate_crc32 (dump_compact_sorted B (JObj (core_config final))))),
           hmac_valid = h,
           returned = (py_or (dict_get m ''crc'') (dict_get m ''crc32'') =
                         JStr (calculate_crc32 (dump_compact_sorted B (JObj (core_config final))))
                       \<and> h \<noteq> Some False)\<rparr>"
    using check_config_result [of m secret B final] by auto
  moreover have "core_config final = dict_set k v (core_config data)"
    unfolding final_def using assms by (rule core_of_tampered)
  moreover have "py_or (dict_get m ''crc'') (dict_get m ''crc32'') =
      JStr (calculate_crc32 (dump_compact_sorted B (JObj (core_config data))))"
    unfolding m_def by (rule stored_crc_of_saved)
  moreover have "verify_config B (tamper k v (save_config B now fs filepath data saved_secret) filepath)
      filepath secret = check_config B final m secret"
    unfolding final_def m_def using assms by (rule verify_tampered)
  ultimately show ?thesis
    by simp
qed

theorem tamper_detected_unless_collision_witness:
  "distinct (map fst [(''a'', JInt 1)]) \<and> ''a'' \<noteq> ''__metadata__'' \<and> ''a'' \<noteq> ''__update_policy__'' \<and>
   (\<exists>r. verify_config \<lparr>float_repr = (\<lambda>w. ''0.0''), int_of_str = (\<lambda>s. None)\<rparr>
          (tamper ''a'' (JInt 2)
             (save_config \<lparr>float_repr = (\<lambda>w. ''0.0''), int_of_str = (\<lambda>s. None)\<rparr>
                ''2025-01-01 00:00:00'' Map.empty ''config.json'' [(''a'', JInt 1)] (Some ''k''))
             ''config.json'')
          ''config.json'' (Some ''k'') = Inr r \<and>
        crc_valid r =
          Some (calculate_crc32
                  (dump_compact_sorted \<lparr>float_repr = (\<lambda>w. ''0.0''), int_of_str = (\<lambda>s. None)\<rparr>
                     (JObj (core_config [(''a'', JInt 1)]))) =
                calculate_crc32
                  (dump_compact_sorted \<lparr>float_repr = (\<lambda>w. ''0.0''), int_of_str = (\<lambda>s. None)\<rparr>
                     (JObj (dict_set ''a'' (JInt 2) (core_config [(''a'', JInt 1)]))))))"
proof -
  have d: "distinct (map fst [(''a'', JInt 1)])"
    and k1: "''a'' \<noteq> ''__metadata__''" and k2: "''a'' \<noteq> ''__update_policy__''"
    by simp_all
  show ?thesis
    using d k1 k2 tamper_detected_unless_collision [OF d k1 k2] by (intro conjI)
qed

text \<open>
  C5 as stated fails: the document \<^verbatim>\<open>{"a":73071323}\<close> is saved, the leaf is changed to
  \<^verbatim>\<open>68694196\<close>, and verification still reports the checksum as valid. Both canonical
  strings have the CRC-32 \<^verbatim>\<open>c6f9ffa5\<close>.
\<close>

theorem tamper_undetected_counterexample:
  "verify_config \<lparr>float_repr = (\<lambda>w. ''0.0''), int_of_str = (\<lambda>s. None)\<rparr>
     (tamper ''a'' (JInt 68694196)
        (save_config \<lparr>float_repr = (\<lambda>w. ''0.0''), int_of_str = (\<lambda>s. None)\<rparr>
           ''2025-01-01 00:00:00'' Map.empty ''config.json'' [(''a'', JInt 73071323)] None)
        ''config.json'')
     ''config.json'' None =
   Inr \<lparr>crc_valid = Some True, hmac_valid = None, returned = True\<rparr>"
proof -
  have d: "distinct (map fst [(''a'', JInt 73071323)])"
    and k: "''a'' \<noteq> ''__metadata__''" "''a'' \<noteq> ''__update_policy__''"
    by simp_all
  have core: "core_config [(''a'', JInt 73071323)] = [(''a'', JInt 73071323)]"
    by (simp add: core_config_def dict_pop_def)
  show ?thesis
    by (simp add: verify_tampered_no_secret [OF d k] core dump_single_int crc_collision)
qed

section \<open>The checksum field, the secret and the metadata\<close>

text \<open>
  C6. Verification compares the computed checksum with the value stored under
  \<^verbatim>\<open>crc\<close>, and with the value stored under \<^verbatim>\<open>crc32\<close> when there is no \<^verbatim>\<open>crc\<close>:
  whatever value \<open>x\<close> the field holds, \<open>crc_valid\<close> is true exactly when \<open>x\<close> is the
  computed checksum. (A value under \<^verbatim>\<open>crc\<close> that Python takes as false, the empty string
  for one, counts as no \<^verbatim>\<open>crc\<close>.) Saving writes the checksum under \<^verbatim>\<open>crc\<close> and does
  not write \<^verbatim>\<open>crc32\<close>: that field of the saved metadata is what the metadata held before,
  and absent when it was absent.
\<close>

theorem crc_field_names:
  "(fs filepath = Some (Document (JObj data)) \<and>
    map_of data ''__metadata__'' = Some (JObj m) \<and> hmac_printable m \<and>
    (map_of m ''crc'' = Some x \<and> truthy x \<or>
     map_of m ''crc'' = None \<and> map_of m ''crc32'' = Some x)
    \<longrightarrow> (\<exists>r. verify_config B fs filepath secret = Inr r \<and>
              crc_valid r =
                Some (x = JStr (calculate_crc32 (dump_compact_sorted B (JObj (core_config data))))))) \<and>
   (\<exists>metadata rest.
      save_config B now fs' filepath' data' secret' filepath' =
        Some (Document (JObj ((''__metadata__'', JObj metadata) # rest))) \<and>
      map_of metadata ''crc'' =
        Some (JStr (calculate_crc32 (dump_compact_sorted B (JObj (core_config data'))))) \<and>
      map_of metadata ''crc32'' =
        map_of (case dict_get_default data' ''__metadata__'' (JObj []) of JObj old \<Rightarrow> old | _ \<Rightarrow> [])
          ''crc32'')"
proof (intro conjI impI)
  assume "fs filepath = Some (Document (JObj data)) \<and>
    map_of data ''__metadata__'' = Some (JObj m) \<and> hmac_printable m \<and>
    (map_of m ''crc'' = Some x \<and> truthy x \<or>
     map_of m ''crc'' = None \<and> map_of m ''crc32'' = Some x)"
  then have f: "fs filepath = Some (Document (JObj data))"
    and md: "map_of data ''__metadata__'' = Some (JObj m)"
    and p: "hmac_printable m"
    and stored: "map_of m ''crc'' = Some x \<and> truthy x \<or>
                 map_of m ''crc'' = None \<and> map_of m ''crc32'' = Some x"
    by simp_all
  from stored have "m \<noteq> []" by auto
  with f md have v: "verify_config B fs filepath secret = check_config B data m secret"
    by (rule verify_document_metadata)
  from stored have "py_or (dict_get m ''crc'') (dict_get m ''crc32'') = x"
    unfolding py_or_def dict_get_def by (elim disjE conjE) simp_all
  then obtain h where "check_config B data m secret =
      Inr \<lparr>crc_valid = Some (x = JStr (calculate_crc32 (dump_compact_sorted B (JObj (core_config data))))),
           hmac_valid = h,
           returned = (x = JStr (calculate_crc32 (dump_compact_sorted B (JObj (core_config data))))
                       \<and> h \<noteq> Some False)\<rparr>"
    using check_config_result [of m secret B data] p by auto
  with v show "\<exists>r. verify_config B fs filepath secret = Inr r \<and>
      crc_valid r =
        Some (x = JStr (calculate_crc32 (dump_compact_sorted B (JObj (core_config data)))))"
    by simp
next
  define metadata where "metadata =
    build_metadata B now (dict_get_default data' ''__metadata__'' (JObj []))
      (dump_compact_sorted B (JObj (core_config data'))) secret'"
  obtain rest where "final_config data' metadata (core_config data') =
      (''__metadata__'', JObj metadata) # rest"
    using final_config_head by blast
  then have "save_config B now fs' filepath' data' secret' filepath' =
      Some (Document (JObj ((''__metadata__'', JObj metadata) # rest)))"
    by (simp add: saved_document metadata_def)
  then show "\<exists>metadata rest.
      save_config B now fs' filepath' data' secret' filepath' =
        Some (Document (JObj ((''__metadata__'', JObj metadata) # rest))) \<and>
      map_of metadata ''crc'' =
        Some (JStr (calculate_crc32 (dump_compact_sorted B (JObj (core_config data'))))) \<and>
      map_of metadata ''crc32'' =
        map_of (case dict_get_default data' ''__metadata__'' (JObj []) of JObj old \<Rightarrow> old | _ \<Rightarrow> [])
          ''crc32''"
    by (auto simp: metadata_def build_metadata_crc build_metadata_crc32)
qed

theorem crc_field_names_witness:
  "(\<exists>r. verify_config \<lparr>float_repr = (\<lambda>w. ''0.0''), int_of_str = (\<lambda>s. None)\<rparr>
          [''config.json'' \<mapsto> Document (JObj [(''__metadata__'', JObj [(''crc32'', JStr ''a3a6bf43'')])])]
          ''config.json'' (Some ''k'') = Inr r \<and>
        crc_valid r =
          Some (JStr ''a3a6bf43'' =
                JStr (calculate_crc32
                        (dump_compact_sorted \<lparr>float_repr = (\<lambda>w. ''0.0''), int_of_str = (\<lambda>s. None)\<rparr>
                           (JObj (core_config
                              [(''__metadata__'', JObj [(''crc32'', JStr ''a3a6bf43'')])])))))) \<and>
   (\<exists>r. verify_config \<lparr>float_repr = (\<lambda>w. ''0.0''), int_of_str = (\<lambda>s. None)\<rparr>
          [''config.json'' \<mapsto> Document (JObj [(''__metadata__'', JObj [(''crc'', JStr ''00000000'')])])]
          ''config.json'' None = Inr r \<and>
        crc_valid r =
          Some (JStr ''00000000'' =
                JStr (calculate_crc32
                        (dump_compact_sorted \<lparr>float_repr = (\<lambda>w. ''0.0''), int_of_str = (\<lambda>s. None)\<rparr>
                           (JObj (core_config
                              [(''__metadata__'', JObj [(''crc'', JStr ''00000000'')])])))))) \<and>
   (\<exists>metadata rest.
      save_config \<lparr>float_repr = (\<lambda>w. ''0.0''), int_of_str = (\<lambda>s. None)\<rparr> ''2025-01-01 00:00:00''
          Map.empty ''config.json'' [(''a'', JInt 1)] None ''config.json'' =
        Some (Document (JObj ((''__metadata__'', JObj metadata) # rest))) \<and>
      map_of metadata ''crc'' =
        Some (JStr (calculate_crc32
                      (dump_compact_sorted \<lparr>float_repr = (\<lambda>w. ''0.0''), int_of_str = (\<lambda>s. None)\<rparr>
                         (JObj (core_config [(''a'', JInt 1)]))))) \<and>
      map_of metadata ''crc32'' =
        map_of (case dict_get_default [(''a'', JInt 1)] ''__metadata__'' (JObj []) of
                  JObj old \<Rightarrow> old | _ \<Rightarrow> [])
          ''crc32'')"
proof -
  let ?B = "\<lparr>float_repr = (\<lambda>w. ''0.0''), int_of_str = (\<lambda>s. None)\<rparr>"
  let ?m = "[(''crc32'', JStr ''a3a6bf43'')]"
  let ?data = "[(''__metadata__'', JObj ?m)]"
  let ?fs = "[''config.json'' \<mapsto> Document (JObj ?data)]"
  let ?m2 = "[(''crc'', JStr ''00000000'')]"
  let ?data2 = "[(''__metadata__'', JObj ?m2)]"
  let ?fs2 = "[''config.json'' \<mapsto> Document (JObj ?data2)]"
  have h: "?fs ''config.json'' = Some (Document (JObj ?data)) \<and>
      map_of ?data ''__metadata__'' = Some (JObj ?m) \<and> hmac_printable ?m \<and>
      (map_of ?m ''crc'' = Some (JStr ''a3a6bf43'') \<and> truthy (JStr ''a3a6bf43'') \<or>
       map_of ?m ''crc'' = None \<and> map_of ?m ''crc32'' = Some (JStr ''a3a6bf43''))"
    by (simp add: hmac_printable_def)
  have h2: "?fs2 ''config.json'' = Some (Document (JObj ?data2)) \<and>
      map_of ?data2 ''__metadata__'' = Some (JObj ?m2) \<and> hmac_printable ?m2 \<and>
      (map_of ?m2 ''crc'' = Some (JStr ''00000000'') \<and> truthy (JStr ''00000000'') \<or>
       map_of ?m2 ''crc'' = None \<and> map_of ?m2 ''crc32'' = Some (JStr ''00000000''))"
    by (simp add: hmac_printable_def)
  note t = crc_field_names
    [of ?fs "''config.json''" ?data ?m "JStr ''a3a6bf43''" ?B "Some ''k''"
        "''2025-01-01 00:00:00''" Map.empty "''config.json''" "[(''a'', JInt 1)]" None]
  note t2 = crc_field_names
    [of ?fs2 "''config.json''" ?data2 ?m2 "JStr ''00000000''" ?B None
        "''2025-01-01 00:00:00''" Map.empty "''config.json''" "[(''a'', JInt 1)]" None]
  show ?thesis
    using t [THEN conjunct1, THEN mp, OF h] t2 [THEN conjunct1, THEN mp, OF h2] t [THEN conjunct2]
    by (intro conjI)
qed

text \<open>
  C7. When no secret is supplied, or a secret is supplied and the metadata stores no
  \<^verbatim>\<open>hmac\<close>, verification makes no HMAC check (\<open>hmac_valid\<close> is \<open>None\<close>) and what it
  returns is the outcome of the checksum alone: the comparison of the value stored under
  \<^verbatim>\<open>crc\<close> (or else \<^verbatim>\<open>crc32\<close>) with the checksum computed from the core of the document.
  Where the metadata is absent or empty no comparison is made and the result is false.
  This holds for every document whose metadata is absent, empty or a dictionary.
\<close>

theorem hmac_skipped:
  assumes "fs filepath = Some (Document (JObj data))"
    and "md = dict_get_default data ''__metadata__'' (JObj [])"
    and "\<not> truthy md \<or> (\<exists>m. md = JObj m)"
    and "\<not> secret_given secret \<or> (\<forall>m. md = JObj m \<longrightarrow> map_of m ''hmac'' = None)"
  shows "(\<not> truthy md \<longrightarrow>
            verify_config B fs filepath secret =
              Inr \<lparr>crc_valid = None, hmac_valid = None, returned = False\<rparr>) \<and>
         (\<forall>m. truthy md \<and> md = JObj m \<longrightarrow>
            verify_config B fs filepath secret =
              Inr \<lparr>crc_valid =
                     Some (py_or (dict_get m ''crc'') (dict_get m ''crc32'') =
                           JStr (calculate_crc32 (dump_compact_sorted B (JObj (core_config data))))),
                   hmac_valid = None,
                   returned =
                     (py_or (dict_get m ''crc'') (dict_get m ''crc32'') =
                      JStr (calculate_crc32 (dump_compact_sorted B (JObj (core_config data)))))\<rparr>) \<and>
         (\<exists>r. verify_config B fs filepath secret = Inr r \<and> hmac_valid r = None \<and>
              returned r = (crc_valid r = Some True))"
proof -
  have not_compared: "verify_config B fs filepath secret =
      Inr \<lparr>crc_valid = None, hmac_valid = None, returned = False\<rparr>" if "\<not> truthy md"
  proof -
    from that assms(2) have "\<not> truthy (dict_get_default data ''__metadata__'' (JObj []))"
      by simp
    with assms(1) show ?thesis
      by (simp add: verify_config_def load_config_def Let_def)
  qed
  have compared: "verify_config B fs filepath secret =
      Inr \<lparr>crc_valid =
             Some (py_or (dict_get m ''crc'') (dict_get m ''crc32'') =
                   JStr (calculate_crc32 (dump_compact_sorted B (JObj (core_config data))))),
           hmac_valid = None,
           returned =
             (py_or (dict_get m ''crc'') (dict_get m ''crc32'') =
              JStr (calculate_crc32 (dump_compact_sorted B (JObj (core_config data)))))\<rparr>"
    if "truthy md" and m: "md = JObj m" for m
  proof -
    from that have nonempty: "m \<noteq> []" by simp
    from assms(2) m have "dict_get_default data ''__metadata__'' (JObj []) = JObj m"
      by simp
    with assms(1) have "verify_config B fs filepath secret = check_config B data m secret"
      using nonempty by (rule verify_document)
    moreover from assms(4) m have "\<not> secret_given secret \<or> map_of m ''hmac'' = None"
      by simp
    ultimately show ?thesis
      using check_config_skips_hmac [of secret m B data] by simp
  qed
  have result: "\<exists>r. verify_config B fs filepath secret = Inr r \<and> hmac_valid r = None \<and>
      returned r = (crc_valid r = Some True)"
  proof (cases "truthy md")
    case False
    then show ?thesis
      by (simp add: not_compared)
  next
    case True
    with assms(3) obtain m where "md = JObj m" by auto
    with True show ?thesis
      by (simp add: compared)
  qed
  show ?thesis
  proof (intro conjI impI allI)
    assume "\<not> truthy md"
    then show "verify_config B fs filepath secret =
        Inr \<lparr>crc_valid = None, hmac_valid = None, returned = False\<rparr>"
      by (rule not_compared)
  next
    fix m
    assume both: "truthy md \<and> md = JObj m"
    from both [THEN conjunct1] both [THEN conjunct2]
    show "verify_config B fs filepath secret =
        Inr \<lparr>crc_valid =
               Some (py_or (dict_get m ''crc'') (dict_get m ''crc32'') =
                     JStr (calculate_crc32 (dump_compact_sorted B (JObj (core_config data))))),
             hmac_valid = None,
             returned =
               (py_or (dict_get m ''crc'') (dict_get m ''crc32'') =
                JStr (calculate_crc32 (dump_compact_sorted B (JObj (core_config data)))))\<rparr>"
      by (rule compared)
  next
    show "\<exists>r. verify_config B fs filepath secret = Inr r \<and> hmac_valid r = None \<and>
        returned r = (crc_valid r = Some True)"
      by (rule result)
  qed
qed

theorem hmac_skipped_witness:
  "verify_config \<lparr>float_repr = (\<lambda>w. ''0.0''), int_of_str = (\<lambda>s. None)\<rparr>
     [''config.json'' \<mapsto> Document (JObj [(''__metadata__'', JObj [(''crc'', JStr ''a3a6bf43'')])])]
     ''config.json'' (Some ''k'') =
   Inr \<lparr>crc_valid = Some True, hmac_valid = None, returned = True\<rparr> \<and>
   verify_config \<lparr>float_repr = (\<lambda>w. ''0.0''), int_of_str = (\<lambda>s. None)\<rparr>
     [''config.json'' \<mapsto> Document (JObj [(''__metadata__'',
         JObj [(''crc'', JStr ''00000000''), (''hmac'', JStr ''0123'')])])]
     ''config.json'' None =
   Inr \<lparr>crc_valid = Some False, hmac_valid = None, returned = False\<rparr> \<and>
   verify_config \<lparr>float_repr = (\<lambda>w. ''0.0''), int_of_str = (\<lambda>s. None)\<rparr>
     [''config.json'' \<mapsto> Document (JObj [(''a'', JInt 1)])] ''config.json'' None =
   Inr \<lparr>crc_valid = None, hmac_valid = None, returned = False\<rparr>"
proof -
  let ?B = "\<lparr>float_repr = (\<lambda>w. ''0.0''), int_of_str = (\<lambda>s. None)\<rparr>"
  let ?m = "[(''crc'', JStr ''a3a6bf43'')]"
  let ?data = "[(''__metadata__'', JObj ?m)]"
  let ?fs = "[''config.json'' \<mapsto> Document (JObj ?data)]"
  let ?m2 = "[(''crc'', JStr ''00000000''), (''hmac'', JStr ''0123'')]"
  let ?data2 = "[(''__metadata__'', JObj ?m2)]"
  let ?fs2 = "[''config.json'' \<mapsto> Document (JObj ?data2)]"
  let ?data3 = "[(''a'', JInt 1)]"
  let ?fs3 = "[''config.json'' \<mapsto> Document (JObj ?data3)]"
  have a1: "?fs ''config.json'' = Some (Document (JObj ?data))"
    and a2: "JObj ?m = dict_get_default ?data ''__metadata__'' (JObj [])"
    and a3: "\<not> truthy (JObj ?m) \<or> (\<exists>m. JObj ?m = JObj m)"
    and a4: "\<not> secret_given (Some ''k'') \<or> (\<forall>m. JObj ?m = JObj m \<longrightarrow> map_of m ''hmac'' = None)"
    by (simp_all add: dict_get_default_def)
  have b1: "?fs2 ''config.json'' = Some (Document (JObj ?data2))"
    and b2: "JObj ?m2 = dict_get_default ?data2 ''__metadata__'' (JObj [])"
    and b3: "\<not> truthy (JObj ?m2) \<or> (\<exists>m. JObj ?m2 = JObj m)"
    and b4: "\<not> secret_given None \<or> (\<forall>m. JObj ?m2 = JObj m \<longrightarrow> map_of m ''hmac'' = None)"
    by (simp_all add: dict_get_default_def)
  have c1: "?fs3 ''config.json'' = Some (Document (JObj ?data3))"
    and c2: "JObj [] = dict_get_default ?data3 ''__metadata__'' (JObj [])"
    and c3: "\<not> truthy (JObj []) \<or> (\<exists>m. JObj [] = JObj m)"
    and c4: "\<not> secret_given None \<or> (\<forall>m. JObj [] = JObj m \<longrightarrow> map_of m ''hmac'' = None)"
    by (simp_all add: dict_get_default_def)
  note t = hmac_skipped
    [where fs = ?fs and filepath = "''config.json''" and data = ?data and B = ?B, OF a1 a2 a3 a4]
  note t2 = hmac_skipped
    [where fs = ?fs2 and filepath = "''config.json''" and data = ?data2 and B = ?B, OF b1 b2 b3 b4]
  note t3 = hmac_skipped
    [where fs = ?fs3 and filepath = "''config.json''" and data = ?data3 and B = ?B,
      OF c1 c2 c3 c4]
  have a: "verify_config ?B ?fs ''config.json'' (Some ''k'') =
      Inr \<lparr>crc_valid = Some True, hmac_valid = None, returned = True\<rparr>"
    using t [THEN conjunct2, THEN conjunct1, THEN spec, of ?m]
    by (simp add: py_or_def dict_get_def core_of_metadata_only dump_empty_object
        crc_fixture_empty_object)
  have b: "verify_config ?B ?fs2 ''config.json'' None =
      Inr \<lparr>crc_valid = Some False, hmac_valid = None, returned = False\<rparr>"
    using t2 [THEN conjunct2, THEN conjunct1, THEN spec, of ?m2]
    by (simp add: py_or_def dict_get_def core_of_metadata_only dump_empty_object
        crc_fixture_empty_object)
  have c: "verify_config ?B ?fs3 ''config.json'' None =
      Inr \<lparr>crc_valid = None, hmac_valid = None, returned = False\<rparr>"
    using t3 [THEN conjunct1] by simp
  from a b c show ?thesis
    by (intro conjI)
qed

text \<open>
  C8. Saving with an empty or absent secret computes the checksum and writes metadata
  without an \<^verbatim>\<open>hmac\<close> field, whatever the metadata held before.
\<close>

theorem save_without_secret:
  assumes "\<not> secret_given secret"
  shows "\<exists>metadata rest.
           save_config B now fs filepath data secret filepath =
             Some (Document (JObj ((''__metadata__'', JObj metadata) # rest))) \<and>
           ''hmac'' \<notin> fst ` set metadata \<and>
           map_of metadata ''crc'' =
             Some (JStr (calculate_crc32 (dump_compact_sorted B (JObj (core_config data)))))"
proof -
  define metadata where "metadata =
    build_metadata B now (dict_get_default data ''__metadata__'' (JObj []))
      (dump_compact_sorted B (JObj (core_config data))) secret"
  obtain rest where "final_config data metadata (core_config data) =
      (''__metadata__'', JObj metadata) # rest"
    using final_config_head by blast
  then have "save_config B now fs filepath data secret filepath =
      Some (Document (JObj ((''__metadata__'', JObj metadata) # rest)))"
    by (simp add: saved_document metadata_def)
  moreover have "''hmac'' \<notin> fst ` set metadata"
    unfolding metadata_def using assms by (rule build_metadata_no_hmac)
  moreover have "map_of metadata ''crc'' =
      Some (JStr (calculate_crc32 (dump_compact_sorted B (JObj (core_config data)))))"
    by (simp add: metadata_def build_metadata_crc)
  ultimately show ?thesis by blast
qed

theorem save_without_secret_witness:
  "\<not> secret_given (Some []) \<and>
   (\<exists>metadata rest.
      save_config \<lparr>float_repr = (\<lambda>w. ''0.0''), int_of_str = (\<lambda>s. None)\<rparr> ''2025-01-01 00:00:00''
          Map.empty ''config.json''
          [(''__metadata__'', JObj [(''hmac'', JStr ''0123'')]), (''a'', JInt 1)] (Some [])
          ''config.json'' =
        Some (Document (JObj ((''__metadata__'', JObj metadata) # rest))) \<and>
      ''hmac'' \<notin> fst ` set metadata \<and>
      map_of metadata ''crc'' =
        Some (JStr (calculate_crc32
                      (dump_compact_sorted \<lparr>float_repr = (\<lambda>w. ''0.0''), int_of_str = (\<lambda>s. None)\<rparr>
                         (JObj (core_config
                            [(''__metadata__'', JObj [(''hmac'', JStr ''0123'')]), (''a'', JInt 1)]))))))"
proof -
  have s: "\<not> secret_given (Some [])"
    by simp
  show ?thesis
    using s save_without_secret [OF s] by (intro conjI)
qed

text \<open>
  C9. Verifying a document whose top-level dictionary has no \<^verbatim>\<open>__metadata__\<close>, or an
  empty one, returns false: no check is made and nothing is raised.
\<close>

theorem verify_without_metadata:
  assumes "fs filepath = Some (Document (JObj data))"
    and "map_of data ''__metadata__'' = None \<or> map_of data ''__metadata__'' = Some (JObj [])"
  shows "verify_config B fs filepath secret =
           Inr \<lparr>crc_valid = None, hmac_valid = None, returned = False\<rparr>"
  using assms by (auto simp: verify_config_def load_config_def dict_get_default_def)

theorem verify_without_metadata_witness:
  "[''config.json'' \<mapsto> Document (JObj [(''a'', JInt 1)])] ''config.json'' =
      Some (Document (JObj [(''a'', JInt 1)])) \<and>
   map_of [(''a'', JInt 1)] ''__metadata__'' = None \<and>
   verify_config \<lparr>float_repr = (\<lambda>w. ''0.0''), int_of_str = (\<lambda>s. None)\<rparr>
     [''config.json'' \<mapsto> Document (JObj [(''a'', JInt 1)])] ''config.json'' (Some ''k'') =
   Inr \<lparr>crc_valid = None, hmac_valid = None, returned = False\<rparr>"
proof -
  have f: "[''config.json'' \<mapsto> Document (JObj [(''a'', JInt 1)])] ''config.json'' =
      Some (Document (JObj [(''a'', JInt 1)]))"
    by simp
  have m: "map_of [(''a'', JInt 1)] ''__metadata__'' = None"
    by simp
  show ?thesis
    using f m
      verify_without_metadata
        [of "[''config.json'' \<mapsto> Document (JObj [(''a'', JInt 1)])]" "''config.json''"
            "[(''a'', JInt 1)]" "\<lparr>float_repr = (\<lambda>w. ''0.0''), int_of_str = (\<lambda>s. None)\<rparr>"
            "Some ''k''", OF f disjI1 [OF m]]
    by (intro conjI)
qed

text \<open>
  C10. When the metadata stores the empty string under \<^verbatim>\<open>crc\<close>, verification compares
  the computed checksum with the value stored under \<^verbatim>\<open>crc32\<close>.
\<close>

theorem empty_crc_falls_back:
  assumes "fs filepath = Some (Document (JObj data))"
    and "map_of data ''__metadata__'' = Some (JObj m)"
    and "map_of m ''crc'' = Some (JStr [])"
    and "map_of m ''crc32'' = Some x"
    and "hmac_printable m"
  shows "\<exists>r. verify_config B fs filepath secret = Inr r \<and>
             crc_valid r =
               Some (x = JStr (calculate_crc32 (dump_compact_sorted B (JObj (core_config data)))))"
proof -
  from assms(3) have "m \<noteq> []" by auto
  with assms(1,2) have "verify_config B fs filepath secret = check_config B data m secret"
    by (rule verify_document_metadata)
  moreover from assms(3,4) have "py_or (dict_get m ''crc'') (dict_get m ''crc32'') = x"
    by (simp add: py_or_def dict_get_def)
  ultimately obtain h where "verify_config B fs filepath secret =
      Inr \<lparr>crc_valid = Some (x = JStr (calculate_crc32 (dump_compact_sorted B (JObj (core_config data))))),
           hmac_valid = h,
           returned = (x = JStr (calculate_crc32 (dump_compact_sorted B (JObj (core_config data))))
                       \<and> h \<noteq> Some False)\<rparr>"
    using check_config_result [of m secret B data] assms(5) by auto
  then show ?thesis
    by simp
qed

theorem empty_crc_falls_back_witness:
  "(\<exists>r. verify_config \<lparr>float_repr = (\<lambda>w. ''0.0''), int_of_str = (\<lambda>s. None)\<rparr>
          [''config.json'' \<mapsto> Document (JObj [(''__metadata__'',
              JObj [(''crc'', JStr []), (''crc32'', JStr ''a3a6bf43'')])])]
          ''config.json'' None = Inr r \<and>
        crc_valid r =
          Some (JStr ''a3a6bf43'' =
                JStr (calculate_crc32
                        (dump_compact_sorted \<lparr>float_repr = (\<lambda>w. ''0.0''), int_of_str = (\<lambda>s. None)\<rparr>
                           (JObj (core_config [(''__metadata__'',
                              JObj [(''crc'', JStr []), (''crc32'', JStr ''a3a6bf43'')])]))))))"
proof -
  let ?m = "[(''crc'', JStr []), (''crc32'', JStr ''a3a6bf43'')]"
  let ?data = "[(''__metadata__'', JObj ?m)]"
  let ?fs = "[''config.json'' \<mapsto> Document (JObj ?data)]"
  have 1: "?fs ''config.json'' = Some (Document (JObj ?data))"
    and 2: "map_of ?data ''__metadata__'' = Some (JObj ?m)"
    and 3: "map_of ?m ''crc'' = Some (JStr [])"
    and 4: "map_of ?m ''crc32'' = Some (JStr ''a3a6bf43'')"
    and 5: "hmac_printable ?m"
    by (simp_all add: hmac_printable_def)
  show ?thesis
    by (rule empty_crc_falls_back
        [where fs = ?fs and filepath = "''config.json''" and data = ?data, OF 1 2 3 4 5])
qed

end
